theory Spec2Isabelle
  imports Main "HOL-Library.Word"
begin

section \<open>Python values, exceptions and interface events\<close>

text \<open>
  A Python \<open>str\<close> is a sequence of Unicode code points, a \<open>bytes\<close> object a sequence
  of octets. Literals of the source are written \<open>pystr ''...''\<close>; the line feed is
  code point 10.
\<close>

type_synonym ustr = "nat list"
type_synonym byte = "8 word"

abbreviation (input) pystr :: "string \<Rightarrow> ustr" where
  "pystr s \<equiv> map of_char s"

text \<open>
  The values that reach the helpers: what \<open>json.loads\<close> can return (\<open>None\<close>, booleans,
  integers, floats as their 64 bits, strings, lists, dictionaries with string keys), and
  \<open>bytes\<close>, which \<open>json.loads\<close> accepts as an argument.
\<close>

datatype pyval =
    PNone
  | PBool bool
  | PInt int
  | PFloat "64 word"
  | PStr ustr
  | PBytes "byte list"
  | PList "pyval list"
  | PDict "(ustr \<times> pyval) list"

text \<open>
  The exception classes the source names or can meet. \<open>JSONDecodeError\<close> is the class
  \<open>parse_json\<close> catches; \<open>LibraryError\<close> stands for any other subclass of \<open>Exception\<close>
  raised by a library or a remote service, \<open>BaseOnly\<close> for a \<open>BaseException\<close> outside
  \<open>Exception\<close>, which \<open>except Exception\<close> lets through.
\<close>

datatype exn =
    JSONDecodeError
  | ValueError ustr
  | TypeError
  | KeyError ustr
  | UnicodeDecodeError
  | LibraryError nat
  | BaseOnly nat

fun is_Exception :: "exn \<Rightarrow> bool" where
  "is_Exception (BaseOnly n) = False"
| "is_Exception e = True"

text \<open>
  A document of the retrieval service: its text and its metadata dictionary. Metadata
  values are kept as the text an f-string renders them to (titles and entry identifiers
  are strings already).
\<close>

record document =
  page_content :: ustr
  metadata :: "(ustr \<times> ustr) list"

text \<open>
  A prompt is one of the three templates of the source with the values bound to its
  variables: the search-query prompt (\<open>question\<close>), the per-document summary prompt
  (\<open>doc\<close>, \<open>question\<close>) and the writer prompt (\<open>research_summary\<close>, \<open>question\<close>,
  \<open>url_list\<close>).
\<close>

datatype prompt =
    SearchPrompt pyval
  | SummaryPrompt document pyval
  | WriterPrompt pyval pyval pyval

text \<open>
  What the program does to the outside, in order: the Streamlit calls and the calls to
  the model and the retrieval service. The text of the decode error is the literal
  \<open>Error decoding JSON. Raw output: \<close> followed by the rendering of the raw output, kept
  here as the value itself.
\<close>

datatype event =
    StSetPageConfig
  | StTitle
  | StMarkdown ustr
  | StError ustr
  | StErrorDecoding pyval
  | StSuccess ustr
  | StDownloadButton "byte list"
  | InitLLM ustr ustr
  | InitRetriever
  | LLMCall prompt
  | RetrieverCall pyval

section \<open>The helpers\<close>

subsection \<open>\<open>str.join\<close>, \<open>parse_json\<close>, \<open>flatten_list\<close>\<close>

fun str_join :: "ustr \<Rightarrow> ustr list \<Rightarrow> ustr" where
  "str_join sep [] = []"
| "str_join sep [s] = s"
| "str_join sep (s # t # ss) = s @ sep @ str_join sep (t # ss)"

text \<open>
  \<open>json.loads\<close> is the standard library's; the model takes it as a parameter, a function
  from the argument to the decoded value or the exception raised.
  \<^verbatim>\<open>
  def parse_json(raw_output: str):
      try:
          return json.loads(raw_output)
      except json.JSONDecodeError:
          st.error(f"Error decoding JSON. Raw output: {raw_output}")
          return []
  \<close>
  The result is the value returned or the exception that leaves the function, with the
  Streamlit calls made.
\<close>

type_synonym json_loads = "pyval \<Rightarrow> exn + pyval"

definition parse_json :: "json_loads \<Rightarrow> pyval \<Rightarrow> (exn + pyval) \<times> event list" where
  "parse_json loads raw_output =
     (case loads raw_output of
        Inr v \<Rightarrow> (Inr v, [])
      | Inl e \<Rightarrow>
          (if e = JSONDecodeError
           then (Inr (PList []), [StErrorDecoding raw_output])
           else (Inl e, [])))"

text \<open>
  \<^verbatim>\<open>
  def flatten_list(nested_list):
      return "\n\n".join("\n\n".join(sublist) for sublist in nested_list)
  \<close>
\<close>

definition flatten_list :: "ustr list list \<Rightarrow> ustr" where
  "flatten_list nested_list = str_join [10, 10] (map (str_join [10, 10]) nested_list)"

subsection \<open>Dictionary lookup, iteration, comprehensions\<close>

text \<open>\<open>d[k]\<close> raises \<open>KeyError\<close> on a missing key.\<close>

definition dict_get :: "(ustr \<times> 'v) list \<Rightarrow> ustr \<Rightarrow> exn + 'v" where
  "dict_get d k = (case map_of d k of None \<Rightarrow> Inl (KeyError k) | Some v \<Rightarrow> Inr v)"

text \<open>
  \<open>for q in x\<close>: a list yields its elements, a dictionary its keys, a string its
  characters, bytes their integer values; the other values are not iterable.
\<close>

fun py_iter :: "pyval \<Rightarrow> exn + pyval list" where
  "py_iter (PList xs) = Inr xs"
| "py_iter (PDict kvs) = Inr (map (\<lambda>kv. PStr (fst kv)) kvs)"
| "py_iter (PStr s) = Inr (map (\<lambda>c. PStr [c]) s)"
| "py_iter (PBytes bs) = Inr (map (\<lambda>b. PInt (uint b)) bs)"
| "py_iter v = Inl TypeError"

text \<open>A list comprehension whose element expression may raise: the first exception ends it.\<close>

fun collect :: "('a \<Rightarrow> exn + 'b) \<Rightarrow> 'a list \<Rightarrow> exn + 'b list" where
  "collect f [] = Inr []"
| "collect f (x # xs) =
     (case f x of
        Inl e \<Rightarrow> Inl e
      | Inr y \<Rightarrow> (case collect f xs of Inl e \<Rightarrow> Inl e | Inr ys \<Rightarrow> Inr (y # ys)))"

section \<open>PDF rendering\<close>

text \<open>
  The PDF library is external: the model takes it as a record of the operations the
  source calls, over the library's own object state \<open>'p\<close>. An operation returns the
  exception it raised, if any, with the state it left the object in. \<open>output\<close> (the
  field \<open>fpdf_output\<close>) returns a
  \<open>str\<close> in one generation of the library and a \<open>bytearray\<close> in the other.
\<close>

datatype pdf_output = OutStr ustr | OutBytes "byte list"

record 'p fpdf_lib =
  new_FPDF :: 'p
  add_page :: "'p \<Rightarrow> exn option \<times> 'p"
  set_auto_page_break :: "bool \<Rightarrow> nat \<Rightarrow> 'p \<Rightarrow> exn option \<times> 'p"
  add_font :: "ustr \<Rightarrow> ustr \<Rightarrow> ustr \<Rightarrow> bool \<Rightarrow> 'p \<Rightarrow> exn option \<times> 'p"
  set_font :: "ustr \<Rightarrow> nat \<Rightarrow> 'p \<Rightarrow> exn option \<times> 'p"
  multi_cell :: "nat \<Rightarrow> nat \<Rightarrow> ustr \<Rightarrow> 'p \<Rightarrow> exn option \<times> 'p"
  fpdf_output :: "ustr \<Rightarrow> 'p \<Rightarrow> exn + pdf_output"

text \<open>The calls made on the PDF object, in order, with their arguments.\<close>

datatype fpdf_call =
    AddPage
  | SetAutoPageBreak bool nat
  | AddFont ustr ustr ustr bool
  | SetFont ustr nat
  | MultiCell nat nat ustr
  | Output ustr

type_synonym 'p pdf_state = "'p \<times> fpdf_call list"

definition invoke_pdf ::
  "fpdf_call \<Rightarrow> ('p \<Rightarrow> exn option \<times> 'p) \<Rightarrow> 'p pdf_state \<Rightarrow> exn option \<times> 'p pdf_state" where
  "invoke_pdf c f s = (case f (fst s) of (r, p') \<Rightarrow> (r, (p', snd s @ [c])))"

text \<open>
  \<open>s.encode('ascii', 'ignore')\<close> keeps the code points below 128, one octet each;
  \<open>b.decode('ascii')\<close> raises on an octet from 128 up; \<open>s.encode("latin1",
  errors="replace")\<close> writes a question mark for a code point from 256 up.
\<close>

definition encode_ascii_ignore :: "ustr \<Rightarrow> byte list" where
  "encode_ascii_ignore s = map of_nat (filter (\<lambda>c. c < 128) s)"

definition decode_ascii :: "byte list \<Rightarrow> exn + ustr" where
  "decode_ascii bs =
     (if list_all (\<lambda>b. unat b < 128) bs then Inr (map unat bs) else Inl UnicodeDecodeError)"

definition encode_latin1_replace :: "ustr \<Rightarrow> byte list" where
  "encode_latin1_replace s = map (\<lambda>c. if c < 256 then of_nat c else 63) s"

text \<open>
  \<^verbatim>\<open>unicodedata.normalize('NFKD', report_text).encode('ascii', 'ignore').decode('ascii')\<close>
  with the normalization, a table of the Unicode database, as a parameter.
\<close>

definition ascii_transliterate :: "(ustr \<Rightarrow> ustr) \<Rightarrow> ustr \<Rightarrow> exn + ustr" where
  "ascii_transliterate nfkd report_text =
     decode_ascii (encode_ascii_ignore (nfkd report_text))"

text \<open>The body of the \<open>try\<close>: \<open>add_font\<close>, then \<open>set_font("DejaVu", size=12)\<close>.\<close>

definition try_unicode_font :: "'p fpdf_lib \<Rightarrow> 'p pdf_state \<Rightarrow> exn option \<times> 'p pdf_state" where
  "try_unicode_font lib s =
     (case invoke_pdf (AddFont (pystr ''DejaVu'') [] (pystr ''DejaVuSans.ttf'') True)
             (add_font lib (pystr ''DejaVu'') [] (pystr ''DejaVuSans.ttf'') True) s of
        (Some e, s') \<Rightarrow> (Some e, s')
      | (None, s') \<Rightarrow>
          invoke_pdf (SetFont (pystr ''DejaVu'') 12) (set_font lib (pystr ''DejaVu'') 12) s')"

text \<open>
  The last three lines: \<open>multi_cell(0, 10, content)\<close>, \<open>output(dest="S")\<close> and the
  conversion of the output to \<open>bytes\<close>.
\<close>

definition output_bytes :: "pdf_output \<Rightarrow> byte list" where
  "output_bytes pdf_output =
     (case pdf_output of OutStr s \<Rightarrow> encode_latin1_replace s | OutBytes b \<Rightarrow> b)"

definition write_content ::
  "'p fpdf_lib \<Rightarrow> ustr \<Rightarrow> 'p pdf_state \<Rightarrow> (exn + byte list) \<times> fpdf_call list" where
  "write_content lib content s =
     (case invoke_pdf (MultiCell 0 10 content) (multi_cell lib 0 10 content) s of
        (Some e, s') \<Rightarrow> (Inl e, snd s')
      | (None, s') \<Rightarrow>
          (case fpdf_output lib (pystr ''S'') (fst s') of
             Inl e \<Rightarrow> (Inl e, snd s' @ [Output (pystr ''S'')])
           | Inr pdf_output \<Rightarrow> (Inr (output_bytes pdf_output), snd s' @ [Output (pystr ''S'')])))"

text \<open>
  \<^verbatim>\<open>
  def generate_pdf(report_text: str) -> bytes:
      if not report_text:
          raise ValueError("No report content provided.")
      pdf = FPDF()
      pdf.add_page()
      pdf.set_auto_page_break(auto=True, margin=15)
      try:
          pdf.add_font("DejaVu", "", "DejaVuSans.ttf", uni=True)
          pdf.set_font("DejaVu", size=12)
          content = report_text
      except Exception:
          pdf.set_font("Helvetica", size=12)
          content = unicodedata.normalize('NFKD', report_text).encode('ascii', 'ignore').decode('ascii')
      pdf.multi_cell(0, 10, content)
      pdf_output = pdf.output(dest="S")
      return pdf_output.encode("latin1", errors="replace") if isinstance(pdf_output, str) else bytes(pdf_output)
  \<close>
  The result is the bytes returned or the exception raised, with the calls made on the
  PDF object.
\<close>

definition generate_pdf ::
  "'p fpdf_lib \<Rightarrow> (ustr \<Rightarrow> ustr) \<Rightarrow> ustr \<Rightarrow> (exn + byte list) \<times> fpdf_call list" where
  "generate_pdf lib nfkd report_text =
     (if report_text = [] then (Inl (ValueError (pystr ''No report content provided.'')), [])
      else
        (case invoke_pdf AddPage (add_page lib) (new_FPDF lib, []) of
           (Some e, s1) \<Rightarrow> (Inl e, snd s1)
         | (None, s1) \<Rightarrow>
        (case invoke_pdf (SetAutoPageBreak True 15) (set_auto_page_break lib True 15) s1 of
           (Some e, s2) \<Rightarrow> (Inl e, snd s2)
         | (None, s2) \<Rightarrow>
        (case try_unicode_font lib s2 of
           (None, s3) \<Rightarrow> write_content lib report_text s3
         | (Some e, s3) \<Rightarrow>
             (if is_Exception e then
                (case invoke_pdf (SetFont (pystr ''Helvetica'') 12)
                        (set_font lib (pystr ''Helvetica'') 12) s3 of
                   (Some e', s4) \<Rightarrow> (Inl e', snd s4)
                 | (None, s4) \<Rightarrow>
                     (case ascii_transliterate nfkd report_text of
                        Inl e' \<Rightarrow> (Inl e', snd s4)
                      | Inr content \<Rightarrow> write_content lib content s4))
              else (Inl e, snd s3))))))"

section \<open>The chains\<close>

text \<open>
  The model and the retrieval service are remote: each is a function of the request and
  of the state \<open>'w\<close> of the outside world, returning the answer or the exception raised
  and the new state. A step of a chain runs on that state and the log of events, and
  returns a value or the exception that ends the invocation. The steps of a chain, the
  branches of a dictionary of steps and the elements of a mapped step run one after the
  other, in the order written. (The chain library may batch the steps of a mapped chain
  and overlap its elements or the branches of a dictionary; that changes the order of
  the requests and, when one fails, which of the later ones were already made. For
  services whose answers do not depend on that order it changes neither the values
  computed nor the requests a successful run makes.)
\<close>

type_synonym 'w llm = "prompt \<Rightarrow> 'w \<Rightarrow> (exn + ustr) \<times> 'w"
type_synonym 'w retriever = "pyval \<Rightarrow> 'w \<Rightarrow> (exn + document list) \<times> 'w"
type_synonym 'w st = "'w \<times> event list"
type_synonym ('a, 'w) exec = "'w st \<Rightarrow> (exn + 'a) \<times> 'w st"

definition ret :: "'a \<Rightarrow> ('a, 'w) exec" where
  "ret x s = (Inr x, s)"

definition lift :: "exn + 'a \<Rightarrow> ('a, 'w) exec" where
  "lift r s = (r, s)"

definition emit :: "event list \<Rightarrow> (unit, 'w) exec" where
  "emit evs s = (Inr (), (fst s, snd s @ evs))"

definition and_then :: "('a, 'w) exec \<Rightarrow> ('a \<Rightarrow> ('b, 'w) exec) \<Rightarrow> ('b, 'w) exec" where
  "and_then m f s = (case m s of (Inl e, s') \<Rightarrow> (Inl e, s') | (Inr x, s') \<Rightarrow> f x s')"

text \<open>\<open>prompt | llm | StrOutputParser()\<close>: one request to the model, its text returned.\<close>

definition llm_call :: "'w llm \<Rightarrow> prompt \<Rightarrow> (ustr, 'w) exec" where
  "llm_call llm p s = (case llm p (fst s) of (r, w') \<Rightarrow> (r, (w', snd s @ [LLMCall p])))"

definition retrieve :: "'w retriever \<Rightarrow> pyval \<Rightarrow> (document list, 'w) exec" where
  "retrieve retriever q s =
     (case retriever q (fst s) of (r, w') \<Rightarrow> (r, (w', snd s @ [RetrieverCall q])))"

text \<open>\<open>chain.map()\<close>: the chain on each element of a list, results in the same order.\<close>

fun map_each :: "('a \<Rightarrow> ('b, 'w) exec) \<Rightarrow> 'a list \<Rightarrow> ('b list, 'w) exec" where
  "map_each f [] s = (Inr [], s)"
| "map_each f (x # xs) s =
     (case f x s of
        (Inl e, s') \<Rightarrow> (Inl e, s')
      | (Inr y, s') \<Rightarrow>
          (case map_each f xs s' of
             (Inl e, s'') \<Rightarrow> (Inl e, s'')
           | (Inr ys, s'') \<Rightarrow> (Inr (y # ys), s'')))"

text \<open>
  \<^verbatim>\<open>
  def create_summary_chain(llm):
      return RunnablePassthrough.assign(summary=get_summary_prompt() | llm | StrOutputParser()) | (
          lambda x: f"Title: {x['doc'].metadata['Title']}\n\nSUMMARY: {x['summary']}"
      )
  \<close>
  The input dictionary \<open>{"question": q, "doc": u}\<close> is the pair \<open>(q, u)\<close>.
\<close>

definition create_summary_chain :: "'w llm \<Rightarrow> pyval \<times> document \<Rightarrow> (ustr, 'w) exec" where
  "create_summary_chain llm x =
     and_then (llm_call llm (SummaryPrompt (snd x) (fst x)))
       (\<lambda>summary. and_then (lift (dict_get (metadata (snd x)) (pystr ''Title'')))
          (\<lambda>title. ret (pystr ''Title: '' @ title @ [10, 10] @ pystr ''SUMMARY: '' @ summary)))"

text \<open>
  \<^verbatim>\<open>
  def create_web_search_chain(retriever, llm):
      summary_chain = create_summary_chain(llm)
      return RunnablePassthrough.assign(
          docs=lambda x: retriever.get_summaries_as_docs(x["question"])[:10]
      ) | (lambda x: [{"question": x["question"], "doc": u} for u in x["docs"]]) | summary_chain.map()
  \<close>
  The input dictionary \<open>{"question": q}\<close> is the value \<open>q\<close>.
\<close>

definition create_web_search_chain ::
  "'w retriever \<Rightarrow> 'w llm \<Rightarrow> pyval \<Rightarrow> (ustr list, 'w) exec" where
  "create_web_search_chain retriever llm question =
     and_then (retrieve retriever question)
       (\<lambda>docs. map_each (create_summary_chain llm) (map (\<lambda>u. (question, u)) (take 10 docs)))"

text \<open>
  \<^verbatim>\<open>
  def create_search_query_chain(llm):
      search_prompt = ChatPromptTemplate.from_messages([...])
      return search_prompt | llm | StrOutputParser() | (lambda x: parse_json(x))
  \<close>
\<close>

definition create_search_query_chain ::
  "json_loads \<Rightarrow> 'w llm \<Rightarrow> pyval \<Rightarrow> (pyval, 'w) exec" where
  "create_search_query_chain loads llm question =
     and_then (llm_call llm (SearchPrompt question))
       (\<lambda>x. case parse_json loads (PStr x) of (r, evs) \<Rightarrow> and_then (emit evs) (\<lambda>_. lift r))"

text \<open>
  \<^verbatim>\<open>
  def create_full_research_chain(llm, retriever):
      search_chain = create_search_query_chain(llm)
      web_chain = create_web_search_chain(retriever, llm)
      return search_chain | (lambda x: [{"question": q} for q in x]) | web_chain.map()
  \<close>
\<close>

definition create_full_research_chain ::
  "json_loads \<Rightarrow> 'w llm \<Rightarrow> 'w retriever \<Rightarrow> pyval \<Rightarrow> (ustr list list, 'w) exec" where
  "create_full_research_chain loads llm retriever question =
     and_then (create_search_query_chain loads llm question)
       (\<lambda>x. and_then (lift (py_iter x))
          (\<lambda>qs. map_each (create_web_search_chain retriever llm) qs))"

text \<open>
  \<^verbatim>\<open>
  def create_url_list_chain(retriever):
      return RunnablePassthrough.assign(
          url_list=lambda x: [
              {"url": u.metadata['Entry ID'], "Title": u.metadata['Title']}
              for u in retriever.get_summaries_as_docs(x["question"])[:10]
          ]
      ) | (lambda x: {
          "url_list": "\n".join([f"[{item['Title']}]({item['url']})" for item in x["url_list"]])
      })
  \<close>
  An item \<open>{"url": .., "Title": ..}\<close> is the pair of the two.
\<close>

definition url_item :: "document \<Rightarrow> exn + ustr \<times> ustr" where
  "url_item u =
     (case dict_get (metadata u) (pystr ''Entry ID'') of
        Inl e \<Rightarrow> Inl e
      | Inr url \<Rightarrow>
          (case dict_get (metadata u) (pystr ''Title'') of
             Inl e \<Rightarrow> Inl e
           | Inr title \<Rightarrow> Inr (url, title)))"

definition url_link :: "ustr \<times> ustr \<Rightarrow> ustr" where
  "url_link item = pystr ''['' @ snd item @ pystr '']('' @ fst item @ pystr '')''"

definition create_url_list_chain :: "'w retriever \<Rightarrow> pyval \<Rightarrow> (pyval, 'w) exec" where
  "create_url_list_chain retriever question =
     and_then (retrieve retriever question)
       (\<lambda>docs. and_then (lift (collect url_item (take 10 docs)))
          (\<lambda>url_list.
             ret (PDict [(pystr ''url_list'', PStr (str_join [10] (map url_link url_list)))])))"

text \<open>
  \<^verbatim>\<open>
  def create_research_summary_chain(full_research_chain):
      return RunnablePassthrough.assign(research_summary=full_research_chain | flatten_list)
  \<close>
  The result is the input dictionary with the key \<open>research_summary\<close> added.
\<close>

definition create_research_summary_chain ::
  "(pyval \<Rightarrow> (ustr list list, 'w) exec) \<Rightarrow> pyval \<Rightarrow> (pyval, 'w) exec" where
  "create_research_summary_chain full_research_chain question =
     and_then (full_research_chain question)
       (\<lambda>nested. ret (PDict [(pystr ''question'', question),
                              (pystr ''research_summary'', PStr (flatten_list nested))]))"

text \<open>
  \<^verbatim>\<open>
  def create_final_chain(llm, retriever):
      writer_prompt = ChatPromptTemplate.from_messages([...])
      full_research_chain = create_full_research_chain(llm, retriever)
      research_summary_chain = create_research_summary_chain(full_research_chain)
      url_list_chain = create_url_list_chain(retriever)
      return (
          {"question": RunnablePassthrough(), "research_summary": research_summary_chain, "url_list": url_list_chain}
          | writer_prompt | llm | StrOutputParser()
      )
  \<close>
  The chain is invoked on \<open>{"question": research_topic}\<close>; each branch of the dictionary
  receives that input, and the writer prompt receives what each branch returned: the
  input itself under \<open>question\<close>, the dictionary of the research summary chain under
  \<open>research_summary\<close>, and the dictionary of the URL list chain under \<open>url_list\<close>.
\<close>

definition create_final_chain ::
  "json_loads \<Rightarrow> 'w llm \<Rightarrow> 'w retriever \<Rightarrow> pyval \<Rightarrow> (ustr, 'w) exec" where
  "create_final_chain loads llm retriever question =
     and_then
       (create_research_summary_chain (create_full_research_chain loads llm retriever) question)
       (\<lambda>research_summary.
          and_then (create_url_list_chain retriever question)
            (\<lambda>url_list.
               llm_call llm
                 (WriterPrompt research_summary (PDict [(pystr ''question'', question)]) url_list)))"

section \<open>The page\<close>

text \<open>
  What the program is given: the constructor of the model client (model name and API key;
  the temperature is the constant 0.8), the retriever, \<open>json.loads\<close>, the PDF library
  and the NFKD normalization.
\<close>

record ('w, 'p) platform =
  GoogleGenerativeAI :: "ustr \<Rightarrow> ustr \<Rightarrow> 'w llm"
  ArxivRetriever :: "'w retriever"
  json_loads_of :: json_loads
  fpdf_of :: "'p fpdf_lib"
  normalize_NFKD :: "ustr \<Rightarrow> ustr"

definition initialize_llm :: "('w, 'p) platform \<Rightarrow> ustr \<Rightarrow> 'w llm" where
  "initialize_llm pf api_key = GoogleGenerativeAI pf (pystr ''gemini-1.5-flash'') api_key"

definition initialize_retriever :: "('w, 'p) platform \<Rightarrow> 'w retriever" where
  "initialize_retriever pf = ArxivRetriever pf"

text \<open>
  \<open>main\<close> on one run of the script: the values of the two text inputs and whether the
  button was pressed. The result is the exception that ended the run, if any, and the
  state with the events in order. The page header (configuration, title, welcome text) is
  the same on every run; the welcome text is abridged to its first line.
  \<^verbatim>\<open>
      if st.button("Generate Report"):
          if not google_api_key:
              st.error("API Key is required.")
              return
          if not research_topic:
              st.error("Research topic is required.")
              return
          with st.spinner("Generating report..."):
              llm = initialize_llm(google_api_key)
              retriever = initialize_retriever()
              report = create_final_chain(llm, retriever).invoke({"question": research_topic})
          st.success("Report generated!")
          st.markdown(report)
          pdf_bytes = generate_pdf(report)
          st.download_button("Download PDF", pdf_bytes, "research_report.pdf", "application/pdf")
  \<close>
\<close>

definition page_header :: "event list" where
  "page_header = [StSetPageConfig, StTitle, StMarkdown (pystr ''### Welcome!'')]"

definition main ::
  "('w, 'p) platform \<Rightarrow> ustr \<Rightarrow> ustr \<Rightarrow> bool \<Rightarrow> 'w \<Rightarrow> exn option \<times> 'w st" where
  "main pf google_api_key research_topic pressed w =
     (if pressed then
        (if google_api_key = [] then
           (None, (w, page_header @ [StError (pystr ''API Key is required.'')]))
         else if research_topic = [] then
           (None, (w, page_header @ [StError (pystr ''Research topic is required.'')]))
         else
           (case create_final_chain (json_loads_of pf) (initialize_llm pf google_api_key)
                   (initialize_retriever pf) (PStr research_topic)
                   (w, page_header @ [InitLLM (pystr ''gemini-1.5-flash'') google_api_key,
                                      InitRetriever]) of
              (Inl e, s) \<Rightarrow> (Some e, s)
            | (Inr report, s) \<Rightarrow>
                (case generate_pdf (fpdf_of pf) (normalize_NFKD pf) report of
                   (Inl e, calls) \<Rightarrow>
                     (Some e, (fst s, snd s @ [StSuccess (pystr ''Report generated!''),
                                               StMarkdown report]))
                 | (Inr pdf_bytes, calls) \<Rightarrow>
                     (None, (fst s, snd s @ [StSuccess (pystr ''Report generated!''),
                                             StMarkdown report,
                                             StDownloadButton pdf_bytes])))))
      else (None, (w, page_header)))"

section \<open>Predicates of the statements\<close>

text \<open>
  A summary record for a document \<open>u\<close> and a question \<open>q\<close>: the string \<open>Title: \<close>, the
  document's \<open>Title\<close> metadata, two line feeds, \<open>SUMMARY: \<close> and a text the model
  returned for the summary prompt of \<open>u\<close> and \<open>q\<close>.
\<close>

definition summary_record :: "'w llm \<Rightarrow> pyval \<Rightarrow> document \<Rightarrow> ustr \<Rightarrow> bool" where
  "summary_record llm q u r \<longleftrightarrow>
     (\<exists>title summary wa wb.
        dict_get (metadata u) (pystr ''Title'') = Inr title
        \<and> llm (SummaryPrompt u q) wa = (Inr summary, wb)
        \<and> r = pystr ''Title: '' @ title @ [10, 10] @ pystr ''SUMMARY: '' @ summary)"

text \<open>
  The events of the pipeline: constructing the model client or the retriever, a request
  to the model, a request to the retrieval service.
\<close>

fun pipeline_event :: "event \<Rightarrow> bool" where
  "pipeline_event (InitLLM m k) = True"
| "pipeline_event InitRetriever = True"
| "pipeline_event (LLMCall p) = True"
| "pipeline_event (RetrieverCall q) = True"
| "pipeline_event ev = False"

text \<open>A step only appends to the log of events.\<close>

definition extends_log :: "('a, 'w) exec \<Rightarrow> bool" where
  "extends_log m \<longleftrightarrow> (\<forall>s. \<exists>evs. snd (snd (m s)) = snd s @ evs)"

section \<open>Assumptions on the PDF library\<close>

text \<open>
  The length of the document \<open>output\<close> returns, in characters or in octets.
\<close>

definition document_length :: "pdf_output \<Rightarrow> nat" where
  "document_length pdf_output =
     (case pdf_output of OutStr s \<Rightarrow> length s | OutBytes b \<Rightarrow> length b)"

text \<open>
  What the theorems on \<open>generate_pdf\<close> assume of the library, as a contract over three
  properties of the object state: \<open>paged\<close> (a page is open), \<open>core\<close> (a page is open and a
  built-in Latin font is selected) and \<open>uni\<close> (a page is open and a Unicode font is
  selected).
  \<^item> Adding a page to the fresh object completes and opens a page; setting the page break
    on an open page completes.
  \<^item> Loading the DejaVu font file and selecting that font either complete or raise a
    subclass of \<open>Exception\<close>, and leave the page open; once selected, the font is a
    Unicode font.
  \<^item> Selecting Helvetica on an open page completes: the font is built in.
  \<^item> Laying out text completes when a Unicode font is selected, and when a built-in font
    is selected and the text is plain ASCII. Nothing is assumed of a layout with no font
    selected, or of other text in a built-in font.
  \<^item> \<open>output\<close> on an open page returns a document that is not empty.
  \<open>unicode_font_outcome\<close> is what the \<open>try\<close> block does on the fresh one-page document.
\<close>

definition fpdf_contract ::
  "'p fpdf_lib \<Rightarrow> ('p \<Rightarrow> bool) \<Rightarrow> ('p \<Rightarrow> bool) \<Rightarrow> ('p \<Rightarrow> bool) \<Rightarrow> bool" where
  "fpdf_contract lib paged core uni \<longleftrightarrow>
     (\<exists>p. add_page lib (new_FPDF lib) = (None, p) \<and> paged p)
     \<and> (\<forall>p. paged p \<longrightarrow> (\<exists>p'. set_auto_page_break lib True 15 p = (None, p') \<and> paged p'))
     \<and> (\<forall>p. paged p \<longrightarrow>
           (case add_font lib (pystr ''DejaVu'') [] (pystr ''DejaVuSans.ttf'') True p of
              (None, p') \<Rightarrow> paged p'
            | (Some e, p') \<Rightarrow> is_Exception e \<and> paged p'))
     \<and> (\<forall>p. paged p \<longrightarrow>
           (case set_font lib (pystr ''DejaVu'') 12 p of
              (None, p') \<Rightarrow> uni p'
            | (Some e, p') \<Rightarrow> is_Exception e \<and> paged p'))
     \<and> (\<forall>p. paged p \<longrightarrow> (\<exists>p'. set_font lib (pystr ''Helvetica'') 12 p = (None, p') \<and> core p'))
     \<and> (\<forall>p content. uni p \<or> core p \<and> list_all (\<lambda>c. c < 128) content \<longrightarrow>
           (\<exists>p'. multi_cell lib 0 10 content p = (None, p') \<and> paged p'))
     \<and> (\<forall>p. paged p \<longrightarrow>
           (\<exists>out. fpdf_output lib (pystr ''S'') p = Inr out \<and> 0 < document_length out))"

definition unicode_font_outcome :: "'p fpdf_lib \<Rightarrow> exn option" where
  "unicode_font_outcome lib =
     fst (try_unicode_font lib
            (snd (set_auto_page_break lib True 15 (snd (add_page lib (new_FPDF lib)))),
             [AddPage, SetAutoPageBreak True 15]))"

section \<open>Stand-ins for the external parts\<close>

text \<open>
  A stand-in for \<open>json.loads\<close> to instantiate theorems at concrete arguments. It agrees
  with \<open>json.loads\<close> on the arguments used below: the text \<open>[]\<close> decodes to the empty
  list, \<open>None\<close> is rejected with a \<open>TypeError\<close>, and the texts \<open>not json\<close>, \<open>[1,2\<close>, the
  empty text and the bytes \<open>not json\<close> raise \<open>JSONDecodeError\<close>.
\<close>

definition loads_sample :: json_loads where
  "loads_sample raw =
     (if raw = PStr (pystr ''[]'') then Inr (PList [])
      else if raw = PStr (pystr ''not json'') \<or> raw = PStr (pystr ''[1,2'') \<or> raw = PStr []
              \<or> raw = PBytes [110, 111, 116, 32, 106, 115, 111, 110]
      then Inl JSONDecodeError
      else Inl TypeError)"

text \<open>
  A stand-in for the PDF library that accepts every call, used for the page: the object
  state is the text laid out so far, the
  document is the text after a four-character header, and the font file is present or
  not (then \<open>add_font\<close> raises). A stand-in for the NFKD normalization that decomposes
  the one letter U+00E9 into \<open>e\<close> and the combining acute accent U+0301.
\<close>

definition fpdf_sample :: "bool \<Rightarrow> ustr fpdf_lib" where
  "fpdf_sample font_file_present =
     \<lparr> new_FPDF = [],
       add_page = (\<lambda>p. (None, p)),
       set_auto_page_break = (\<lambda>auto margin p. (None, p)),
       add_font = (\<lambda>family style fname uni p.
                     (if font_file_present then None else Some (LibraryError 0), p)),
       set_font = (\<lambda>family size p. (None, p)),
       multi_cell = (\<lambda>w h txt p. (None, p @ txt)),
       fpdf_output = (\<lambda>dest p. Inr (OutStr (pystr ''%PDF'' @ p))) \<rparr>"

definition nfkd_sample :: "ustr \<Rightarrow> ustr" where
  "nfkd_sample s = concat (map (\<lambda>c. if c = 233 then [101, 769] else [c]) s)"

text \<open>
  A stand-in for the PDF library that has the library's preconditions: the object state
  holds the number of pages, whether the font file was loaded, the font selected and the
  text laid out. Loading the font raises when the file is absent; selecting a font that
  was not loaded raises; laying out text raises when no page is open or no font is
  selected, and when the built-in font is selected and the text has a code point from
  256 up. The document is the text laid out after a four-character header.
\<close>

datatype font_selected = NoFont | CoreFont | UnicodeFont

record strict_pdf =
  sp_pages :: nat
  sp_font_added :: bool
  sp_font :: font_selected
  sp_body :: ustr

definition fpdf_strict :: "bool \<Rightarrow> strict_pdf fpdf_lib" where
  "fpdf_strict font_file_present =
     \<lparr> new_FPDF = \<lparr> sp_pages = 0, sp_font_added = False, sp_font = NoFont, sp_body = [] \<rparr>,
       add_page = (\<lambda>p. (None, p\<lparr> sp_pages := Suc (sp_pages p) \<rparr>)),
       set_auto_page_break = (\<lambda>auto margin p. (None, p)),
       add_font = (\<lambda>family style fname uni p.
                     if font_file_present then (None, p\<lparr> sp_font_added := True \<rparr>)
                     else (Some (LibraryError 0), p)),
       set_font = (\<lambda>family size p.
                     if family = pystr ''Helvetica'' then (None, p\<lparr> sp_font := CoreFont \<rparr>)
                     else if sp_font_added p then (None, p\<lparr> sp_font := UnicodeFont \<rparr>)
                     else (Some (LibraryError 1), p)),
       multi_cell = (\<lambda>w h txt p.
                     if sp_pages p = 0 \<or> sp_font p = NoFont then (Some (LibraryError 2), p)
                     else if sp_font p = CoreFont \<and> \<not> list_all (\<lambda>c. c < 256) txt
                     then (Some (LibraryError 3), p)
                     else (None, p\<lparr> sp_body := sp_body p @ txt \<rparr>)),
       fpdf_output = (\<lambda>dest p. Inr (OutStr (pystr ''%PDF'' @ sp_body p))) \<rparr>"

definition strict_paged :: "strict_pdf \<Rightarrow> bool" where
  "strict_paged p \<longleftrightarrow> 0 < sp_pages p"

definition strict_core :: "strict_pdf \<Rightarrow> bool" where
  "strict_core p \<longleftrightarrow> 0 < sp_pages p \<and> sp_font p = CoreFont"

definition strict_uni :: "strict_pdf \<Rightarrow> bool" where
  "strict_uni p \<longleftrightarrow> 0 < sp_pages p \<and> sp_font p = UnicodeFont"

text \<open>
  Stand-ins for the remote services, over a world state that counts the requests served:
  a model that answers the search prompt with the text \<open>not json\<close>, every summary
  prompt with \<open>S\<close> and the writer prompt with \<open>report\<close>; a retrieval service that
  returns \<open>k\<close> copies of one document.
\<close>

definition doc_sample :: document where
  "doc_sample =
     \<lparr> page_content = pystr ''abstract'',
       metadata = [(pystr ''Entry ID'', pystr ''http://arxiv.org/abs/1''),
                   (pystr ''Title'', pystr ''T'')] \<rparr>"

definition llm_sample :: "nat llm" where
  "llm_sample p w =
     (case p of
        SearchPrompt q \<Rightarrow> (Inr (pystr ''not json''), Suc w)
      | SummaryPrompt u q \<Rightarrow> (Inr (pystr ''S''), Suc w)
      | WriterPrompt a b c \<Rightarrow> (Inr (pystr ''report''), Suc w))"

definition retriever_sample :: "nat \<Rightarrow> nat retriever" where
  "retriever_sample k q w = (Inr (replicate k doc_sample), Suc w)"

definition platform_sample :: "(nat, ustr) platform" where
  "platform_sample =
     \<lparr> GoogleGenerativeAI = (\<lambda>model api_key. llm_sample),
       ArxivRetriever = retriever_sample 1,
       json_loads_of = loads_sample,
       fpdf_of = fpdf_sample False,
       normalize_NFKD = nfkd_sample \<rparr>"

section \<open>Properties of the helpers\<close>

lemma str_join_Cons: "str_join sep (s # ss) = s @ concat (map (\<lambda>t. sep @ t) ss)"
  by (induction ss arbitrary: s) simp_all

lemma flatten_list_Cons:
  "flatten_list (g # gs) =
     str_join [10, 10] g @ concat (map (\<lambda>h. [10, 10] @ str_join [10, 10] h) gs)"
  by (simp add: flatten_list_def str_join_Cons comp_def)

text \<open>
  C2. \<open>flatten_list([])\<close> is the empty string, \<open>flatten_list([["a","b"]])\<close> and
  \<open>flatten_list([["a"],["b"]])\<close> are both \<open>a\<close>, two line feeds, \<open>b\<close>; in general the
  strings of a group are joined by two line feeds (every string after the first of its
  group is preceded by them) and the groups are joined by two line feeds likewise.
\<close>

theorem flatten_list_joins:
  "flatten_list [] = []
   \<and> flatten_list [[pystr ''a'', pystr ''b'']] = pystr ''a'' @ [10, 10] @ pystr ''b''
   \<and> flatten_list [[pystr ''a''], [pystr ''b'']] = pystr ''a'' @ [10, 10] @ pystr ''b''
   \<and> str_join [10, 10] [] = []
   \<and> str_join [10, 10] (s # ss) = s @ concat (map (\<lambda>t. [10, 10] @ t) ss)
   \<and> flatten_list (g # gs) =
       str_join [10, 10] g @ concat (map (\<lambda>h. [10, 10] @ str_join [10, 10] h) gs)"
  by (simp add: flatten_list_Cons str_join_Cons) (simp add: flatten_list_def)

theorem flatten_list_joins_witness:
  "flatten_list [[pystr ''a'', pystr ''b''], [pystr ''c'']] =
     [97, 10, 10, 98, 10, 10, 99]"
  using flatten_list_joins [of "pystr ''a''" "[pystr ''b'']" "[pystr ''a'', pystr ''b'']" "[[pystr ''c'']]"]
  by simp

text \<open>
  C3. \<open>parse_json\<close> returns the decoded value, whatever its shape, when \<open>json.loads\<close>
  decodes the string, and the empty list (after reporting the raw output) when
  \<open>json.loads\<close> raises a decode error on it.
\<close>

theorem parse_json_decodes_or_empty:
  "(loads (PStr s) = Inr v \<longrightarrow> parse_json loads (PStr s) = (Inr v, []))
   \<and> (loads (PStr s) = Inl JSONDecodeError \<longrightarrow>
        parse_json loads (PStr s) = (Inr (PList []), [StErrorDecoding (PStr s)]))"
  by (simp add: parse_json_def)

theorem parse_json_decodes_or_empty_witness:
  "parse_json loads_sample (PStr (pystr ''[]'')) = (Inr (PList []), [])
   \<and> parse_json loads_sample (PStr (pystr ''not json'')) =
        (Inr (PList []), [StErrorDecoding (PStr (pystr ''not json''))])
   \<and> parse_json loads_sample (PStr (pystr ''[1,2'')) =
        (Inr (PList []), [StErrorDecoding (PStr (pystr ''[1,2''))])
   \<and> parse_json loads_sample (PStr []) = (Inr (PList []), [StErrorDecoding (PStr [])])"
proof -
  have a: "loads_sample (PStr (pystr ''[]'')) = Inr (PList [])"
    by (simp add: loads_sample_def)
  have b: "loads_sample (PStr (pystr ''not json'')) = Inl JSONDecodeError"
    by (simp add: loads_sample_def)
  have c: "loads_sample (PStr (pystr ''[1,2'')) = Inl JSONDecodeError"
    by (simp add: loads_sample_def)
  have d: "loads_sample (PStr []) = Inl JSONDecodeError"
    by (simp add: loads_sample_def)
  show ?thesis
    using parse_json_decodes_or_empty [of loads_sample "pystr ''[]''" "PList []"]
      parse_json_decodes_or_empty [of loads_sample "pystr ''not json''" undefined]
      parse_json_decodes_or_empty [of loads_sample "pystr ''[1,2''" undefined]
      parse_json_decodes_or_empty [of loads_sample "[]" undefined]
      a b c d
    by simp
qed

lemma str_join_append:
  "xs \<noteq> [] \<Longrightarrow> ys \<noteq> [] \<Longrightarrow> str_join sep (xs @ ys) = str_join sep xs @ sep @ str_join sep ys"
  by (induction sep xs rule: str_join.induct) (auto simp: neq_Nil_conv)

lemma flatten_list_concat:
  "[] \<notin> set nested \<Longrightarrow> flatten_list nested = str_join [10, 10] (concat nested)"
proof (induction nested)
  case Nil
  then show ?case by (simp add: flatten_list_def)
next
  case (Cons g gs)
  then have g: "g \<noteq> []" and gs: "[] \<notin> set gs" by auto
  show ?case
  proof (cases gs)
    case Nil
    then show ?thesis by (simp add: flatten_list_def)
  next
    case (Cons h hs)
    with gs have "concat gs \<noteq> []" by auto
    with g Cons.IH gs Cons show ?thesis
      by (simp add: flatten_list_def str_join_append)
  qed
qed

lemma length_str_join:
  "length (str_join sep ss) = sum_list (map length ss) + length sep * (length ss - 1)"
  by (induction sep ss rule: str_join.induct) simp_all

lemma count_groups:
  "sum_list (map (\<lambda>g. length g - 1) nested) + length nested =
     length (concat nested) + length (filter (\<lambda>g. g = []) nested)"
  by (induction nested) (auto simp: Suc_diff_Suc neq_Nil_conv)

lemma length_flatten_list:
  "length (flatten_list nested) =
     sum_list (map length (concat nested)) + 2 * sum_list (map (\<lambda>g. length g - 1) nested)
       + 2 * (length nested - 1)"
proof -
  have "sum_list (map (length \<circ> str_join [10, 10]) nested) =
          sum_list (map length (concat nested)) + 2 * sum_list (map (\<lambda>g. length g - 1) nested)"
    by (induction nested) (simp_all add: length_str_join)
  then show ?thesis
    by (simp add: flatten_list_def length_str_join)
qed

lemma flatten_list_longer:
  assumes "[] \<in> set nested" "2 \<le> length nested"
  shows "length (str_join [10, 10] (concat nested)) < length (flatten_list nested)"
proof -
  define E where "E = length (filter (\<lambda>g. g = []) nested)"
  define K where "K = length (concat nested)"
  define D where "D = sum_list (map (\<lambda>g. length g - 1) nested)"
  define S where "S = sum_list (map length (concat nested))"
  have e: "0 < E"
    using assms(1) by (simp add: E_def filter_empty_conv)
  have c: "D + length nested = K + E"
    unfolding D_def K_def E_def by (rule count_groups)
  have l1: "length (flatten_list nested) = S + 2 * D + 2 * (length nested - 1)"
    unfolding S_def D_def by (rule length_flatten_list)
  have l2: "length (str_join [10, 10] (concat nested)) = S + 2 * (K - 1)"
    unfolding S_def K_def by (simp add: length_str_join)
  show ?thesis
    using e c assms(2) unfolding l1 l2 by arith
qed

lemma flatten_list_differs:
  "flatten_list nested \<noteq> str_join [10, 10] (concat nested)
     \<longleftrightarrow> [] \<in> set nested \<and> 2 \<le> length nested"
proof
  assume d: "flatten_list nested \<noteq> str_join [10, 10] (concat nested)"
  then have m: "[] \<in> set nested"
    using flatten_list_concat by blast
  have "2 \<le> length nested"
  proof (rule ccontr)
    assume "\<not> 2 \<le> length nested"
    then have "length nested = 0 \<or> length nested = 1" by arith
    then have "nested = [] \<or> nested = [[]]"
      using m by (auto simp: length_Suc_conv)
    with d show False by (auto simp: flatten_list_def)
  qed
  with m show "[] \<in> set nested \<and> 2 \<le> length nested" ..
next
  assume "[] \<in> set nested \<and> 2 \<le> length nested"
  then have "length (str_join [10, 10] (concat nested)) < length (flatten_list nested)"
    using flatten_list_longer by blast
  then show "flatten_list nested \<noteq> str_join [10, 10] (concat nested)" by auto
qed

text \<open>
  C8 (as amended). When no inner list is empty, \<open>flatten_list\<close> is the join of the
  concatenation of the inner lists by two line feeds. An empty inner list contributes an
  empty segment between separators (\<open>flatten_list([[],["a"]])\<close> is two line feeds and
  \<open>a\<close>). The two definitions differ exactly on the inputs that contain an empty inner
  list and have at least two inner lists.
\<close>

theorem flatten_list_vs_concat:
  "([] \<notin> set nested \<longrightarrow> flatten_list nested = str_join [10, 10] (concat nested))
   \<and> flatten_list [[], [pystr ''a'']] = [10, 10] @ pystr ''a''
   \<and> (flatten_list nested \<noteq> str_join [10, 10] (concat nested)
        \<longleftrightarrow> [] \<in> set nested \<and> 2 \<le> length nested)"
proof (intro conjI impI)
  show "flatten_list [[], [pystr ''a'']] = [10, 10] @ pystr ''a''"
    by (simp add: flatten_list_def)
next
  assume "[] \<notin> set nested"
  then show "flatten_list nested = str_join [10, 10] (concat nested)"
    by (rule flatten_list_concat)
next
  show "flatten_list nested \<noteq> str_join [10, 10] (concat nested)
          \<longleftrightarrow> [] \<in> set nested \<and> 2 \<le> length nested"
    by (rule flatten_list_differs)
qed

theorem flatten_list_vs_concat_witness:
  "flatten_list [[pystr ''a''], [pystr ''b'']] =
     str_join [10, 10] (concat [[pystr ''a''], [pystr ''b'']])
   \<and> flatten_list [[], [pystr ''a'']] \<noteq> str_join [10, 10] (concat [[], [pystr ''a'']])"
  using flatten_list_vs_concat [of "[[pystr ''a''], [pystr ''b'']]"]
    flatten_list_vs_concat [of "[[], [pystr ''a'']]"]
  by simp

text \<open>
  The input \<open>[[]]\<close> contains an empty inner list, and both definitions give the empty
  string on it.
\<close>

theorem flatten_list_single_empty_group:
  "[] \<in> set [[] :: ustr list]
   \<and> flatten_list [[]] = str_join [10, 10] (concat [[]])"
  by (simp add: flatten_list_def)

text \<open>
  C9 (as amended). \<open>parse_json\<close> catches only JSON decode errors: any other exception of
  \<open>json.loads\<close> (a \<open>TypeError\<close> for \<open>None\<close>, say) leaves the helper, with nothing
  reported; a decode error never leaves it; and the fallback (the report and the empty
  list) is taken exactly when \<open>json.loads\<close> raised a decode error, whatever the type of
  the argument.
\<close>

theorem parse_json_catches_only_decode_errors:
  "(loads raw = Inl e \<and> e \<noteq> JSONDecodeError \<longrightarrow> parse_json loads raw = (Inl e, []))
   \<and> parse_json loads raw \<noteq> (Inl JSONDecodeError, evs)
   \<and> (parse_json loads raw = (Inr (PList []), [StErrorDecoding raw])
        \<longleftrightarrow> loads raw = Inl JSONDecodeError)"
  by (auto simp: parse_json_def split: sum.splits)

theorem parse_json_catches_only_decode_errors_witness:
  "parse_json loads_sample PNone = (Inl TypeError, [])
   \<and> parse_json loads_sample (PStr (pystr ''not json'')) =
        (Inr (PList []), [StErrorDecoding (PStr (pystr ''not json''))])"
proof -
  have a: "loads_sample PNone = Inl TypeError"
    by (simp add: loads_sample_def)
  have b: "loads_sample (PStr (pystr ''not json'')) = Inl JSONDecodeError"
    by (simp add: loads_sample_def)
  show ?thesis
    using parse_json_catches_only_decode_errors [of loads_sample PNone TypeError]
      parse_json_catches_only_decode_errors [of loads_sample "PStr (pystr ''not json'')"]
      a b
    by simp
qed

text \<open>
  \<open>json.loads\<close> accepts \<open>bytes\<close>: on the bytes \<open>not json\<close> it raises a decode error, so a
  non-string argument reaches the fallback and no exception propagates.
\<close>

theorem parse_json_bytes_fallback:
  "parse_json loads_sample (PBytes [110, 111, 116, 32, 106, 115, 111, 110]) =
     (Inr (PList []), [StErrorDecoding (PBytes [110, 111, 116, 32, 106, 115, 111, 110])])"
  by (simp add: parse_json_def loads_sample_def)

section \<open>Properties of the PDF renderer\<close>

lemma decode_encode_ascii:
  "decode_ascii (encode_ascii_ignore s) = Inr (filter (\<lambda>c. c < 128) s)"
proof -
  have u: "unat (of_nat c :: byte) = c" if "c < 128" for c :: nat
    using that by (simp add: unat_of_nat)
  have "list_all (\<lambda>b. unat b < 128) (encode_ascii_ignore s)"
    by (induction s) (simp_all add: encode_ascii_ignore_def u)
  moreover have "map unat (encode_ascii_ignore s) = filter (\<lambda>c. c < 128) s"
    by (induction s) (simp_all add: encode_ascii_ignore_def u)
  ultimately show ?thesis
    by (simp add: decode_ascii_def)
qed

lemma ascii_transliterate_eq:
  "ascii_transliterate nfkd s = Inr (filter (\<lambda>c. c < 128) (nfkd s))"
  by (simp add: ascii_transliterate_def decode_encode_ascii)

lemma ascii_latin1: "list_all (\<lambda>c. c < 128) content \<Longrightarrow> list_all (\<lambda>c. c < (256::nat)) content"
  by (induction content) auto

lemma fpdf_strict_contract:
  "fpdf_contract (fpdf_strict b) strict_paged strict_core strict_uni"
  unfolding fpdf_contract_def
  by (auto simp: fpdf_strict_def strict_paged_def strict_core_def strict_uni_def
      document_length_def dest: ascii_latin1)

lemma length_output_bytes: "length (output_bytes out) = document_length out"
  by (cases out) (simp_all add: output_bytes_def document_length_def encode_latin1_replace_def)

lemma write_content_run:
  assumes "multi_cell lib 0 10 content p = (None, p')"
      and "fpdf_output lib (pystr ''S'') p' = Inr out"
  shows "write_content lib content (p, calls) =
           (Inr (output_bytes out), calls @ [MultiCell 0 10 content, Output (pystr ''S'')])"
  using assms by (simp add: write_content_def invoke_pdf_def)


lemma contract_add_page:
  "fpdf_contract lib paged core uni \<Longrightarrow> \<exists>p. add_page lib (new_FPDF lib) = (None, p) \<and> paged p"
  by (simp add: fpdf_contract_def)

lemma contract_page_break:
  "fpdf_contract lib paged core uni \<Longrightarrow> paged p \<Longrightarrow>
     \<exists>p'. set_auto_page_break lib True 15 p = (None, p') \<and> paged p'"
  by (simp add: fpdf_contract_def)

lemma contract_add_font:
  "fpdf_contract lib paged core uni \<Longrightarrow> paged p \<Longrightarrow>
     add_font lib (pystr ''DejaVu'') [] (pystr ''DejaVuSans.ttf'') True p = (r, p') \<Longrightarrow>
     paged p' \<and> (\<forall>e. r = Some e \<longrightarrow> is_Exception e)"
  unfolding fpdf_contract_def by (cases r) fastforce+

lemma contract_set_unicode_font:
  "fpdf_contract lib paged core uni \<Longrightarrow> paged p \<Longrightarrow>
     set_font lib (pystr ''DejaVu'') 12 p = (r, p') \<Longrightarrow>
     (r = None \<longrightarrow> uni p') \<and> (\<forall>e. r = Some e \<longrightarrow> is_Exception e \<and> paged p')"
  unfolding fpdf_contract_def by (cases r) fastforce+

lemma contract_set_core_font:
  "fpdf_contract lib paged core uni \<Longrightarrow> paged p \<Longrightarrow>
     \<exists>p'. set_font lib (pystr ''Helvetica'') 12 p = (None, p') \<and> core p'"
  by (simp add: fpdf_contract_def)

lemma contract_multi_cell:
  "fpdf_contract lib paged core uni \<Longrightarrow> uni p \<or> core p \<and> list_all (\<lambda>c. c < 128) content \<Longrightarrow>
     \<exists>p'. multi_cell lib 0 10 content p = (None, p') \<and> paged p'"
  unfolding fpdf_contract_def by (elim conjE) blast

lemma contract_output:
  "fpdf_contract lib paged core uni \<Longrightarrow> paged p \<Longrightarrow>
     \<exists>out. fpdf_output lib (pystr ''S'') p = Inr out \<and> 0 < document_length out"
  by (simp add: fpdf_contract_def)

lemma generate_pdf_contract_run:
  assumes t: "report_text \<noteq> []" and c: "fpdf_contract lib paged core uni"
  shows "\<exists>calls content p p' out.
       multi_cell lib 0 10 content p = (None, p')
     \<and> fpdf_output lib (pystr ''S'') p' = Inr out
     \<and> 0 < document_length out
     \<and> generate_pdf lib nfkd report_text = (Inr (output_bytes out), calls)
     \<and> ((unicode_font_outcome lib = None \<and> uni p \<and> content = report_text \<and>
          calls = [AddPage, SetAutoPageBreak True 15,
                   AddFont (pystr ''DejaVu'') [] (pystr ''DejaVuSans.ttf'') True,
                   SetFont (pystr ''DejaVu'') 12,
                   MultiCell 0 10 content, Output (pystr ''S'')])
         \<or> (\<exists>e pre. unicode_font_outcome lib = Some e \<and> is_Exception e \<and> core p \<and>
               content = filter (\<lambda>c. c < 128) (nfkd report_text) \<and>
               (pre = [AddPage, SetAutoPageBreak True 15,
                       AddFont (pystr ''DejaVu'') [] (pystr ''DejaVuSans.ttf'') True]
                \<or> pre = [AddPage, SetAutoPageBreak True 15,
                         AddFont (pystr ''DejaVu'') [] (pystr ''DejaVuSans.ttf'') True,
                         SetFont (pystr ''DejaVu'') 12]) \<and>
               calls = pre @ [SetFont (pystr ''Helvetica'') 12, MultiCell 0 10 content,
                              Output (pystr ''S'')]))"
proof -
  let ?D = "pystr ''DejaVu''" and ?F = "pystr ''DejaVuSans.ttf''" and ?H = "pystr ''Helvetica''"
  let ?A = "filter (\<lambda>c. c < 128) (nfkd report_text)"
  let ?pre1 = "[AddPage, SetAutoPageBreak True 15, AddFont ?D [] ?F True]"
  let ?pre2 = "[AddPage, SetAutoPageBreak True 15, AddFont ?D [] ?F True, SetFont ?D 12]"
  have ascii: "list_all (\<lambda>c. c < 128) ?A"
    by (simp add: list_all_iff)
  obtain p1 where p1: "add_page lib (new_FPDF lib) = (None, p1)" "paged p1"
    using contract_add_page [OF c] by blast
  obtain p2 where p2: "set_auto_page_break lib True 15 p1 = (None, p2)" "paged p2"
    using contract_page_break [OF c p1(2)] by blast
  obtain r3 p3 where p3: "add_font lib ?D [] ?F True p2 = (r3, p3)"
    by (cases "add_font lib ?D [] ?F True p2")
  have paged3: "paged p3" and exc3: "\<And>e. r3 = Some e \<Longrightarrow> is_Exception e"
    using contract_add_font [OF c p2(2) p3] by simp_all
  obtain r4 p4 where p4: "set_font lib ?D 12 p3 = (r4, p4)"
    by (cases "set_font lib ?D 12 p3")
  have uni4: "r4 = None \<Longrightarrow> uni p4"
    and exc4: "\<And>e. r4 = Some e \<Longrightarrow> is_Exception e \<and> paged p4"
    using contract_set_unicode_font [OF c paged3 p4] by simp_all
  have oc: "unicode_font_outcome lib = (case r3 of Some e \<Rightarrow> Some e | None \<Rightarrow> r4)"
    using p1(1) p2(1) p3 p4
    by (simp add: unicode_font_outcome_def try_unicode_font_def invoke_pdf_def split: option.splits)
  have fallback: ?thesis
    if pg: "paged q" and e: "unicode_font_outcome lib = Some e" "is_Exception e"
      and pre: "pre = ?pre1 \<or> pre = ?pre2"
      and g: "\<And>p5 out. set_font lib ?H 12 q = (None, p5) \<Longrightarrow>
               generate_pdf lib nfkd report_text =
                 write_content lib ?A (p5, pre @ [SetFont ?H 12])"
    for q e pre
  proof -
    obtain p5 where p5: "set_font lib ?H 12 q = (None, p5)" "core p5"
      using contract_set_core_font [OF c pg] by blast
    obtain p6 where p6: "multi_cell lib 0 10 ?A p5 = (None, p6)" "paged p6"
      using contract_multi_cell [OF c, of p5 ?A] p5(2) ascii by blast
    obtain out where out: "fpdf_output lib (pystr ''S'') p6 = Inr out" "0 < document_length out"
      using contract_output [OF c p6(2)] by blast
    have v: "generate_pdf lib nfkd report_text =
            (Inr (output_bytes out),
             pre @ [SetFont ?H 12, MultiCell 0 10 ?A, Output (pystr ''S'')])"
      using g [OF p5(1)] write_content_run [OF p6(1) out(1)] by simp
    have "multi_cell lib 0 10 ?A p5 = (None, p6)
        \<and> fpdf_output lib (pystr ''S'') p6 = Inr out
        \<and> 0 < document_length out
        \<and> generate_pdf lib nfkd report_text =
            (Inr (output_bytes out), pre @ [SetFont ?H 12, MultiCell 0 10 ?A, Output (pystr ''S'')])
        \<and> (\<exists>e pre'. unicode_font_outcome lib = Some e \<and> is_Exception e \<and> core p5 \<and>
               ?A = ?A \<and> (pre' = ?pre1 \<or> pre' = ?pre2) \<and>
               pre @ [SetFont ?H 12, MultiCell 0 10 ?A, Output (pystr ''S'')] =
               pre' @ [SetFont ?H 12, MultiCell 0 10 ?A, Output (pystr ''S'')])"
      using p6(1) out v e p5(2) pre by blast
    then show ?thesis
      by (intro exI [of _ "pre @ [SetFont ?H 12, MultiCell 0 10 ?A, Output (pystr ''S'')]"]
          exI [of _ ?A] exI [of _ p5] exI [of _ p6] exI [of _ out]) blast
  qed
  show ?thesis
  proof (cases r3)
    case (Some e)
    show ?thesis
    proof (rule fallback [OF paged3, of e ?pre1])
      show "unicode_font_outcome lib = Some e" using oc Some by simp
      show "is_Exception e" using exc3 Some by simp
      show "?pre1 = ?pre1 \<or> ?pre1 = ?pre2" by simp
    next
      fix p5
      assume "set_font lib ?H 12 p3 = (None, p5)"
      then show "generate_pdf lib nfkd report_text =
                   write_content lib ?A (p5, ?pre1 @ [SetFont ?H 12])"
        using t p1(1) p2(1) p3 Some exc3
        by (simp add: generate_pdf_def try_unicode_font_def invoke_pdf_def ascii_transliterate_eq)
    qed
  next
    case None
    show ?thesis
    proof (cases r4)
      case (Some e)
      show ?thesis
      proof (rule fallback [of p4 e ?pre2])
        show "paged p4" using exc4 Some by simp
        show "unicode_font_outcome lib = Some e" using oc None Some by simp
        show "is_Exception e" using exc4 Some by simp
        show "?pre2 = ?pre1 \<or> ?pre2 = ?pre2" by simp
      next
        fix p5
        assume "set_font lib ?H 12 p4 = (None, p5)"
        then show "generate_pdf lib nfkd report_text =
                     write_content lib ?A (p5, ?pre2 @ [SetFont ?H 12])"
          using t p1(1) p2(1) p3 p4 None Some exc4
          by (simp add: generate_pdf_def try_unicode_font_def invoke_pdf_def ascii_transliterate_eq)
      qed
    next
      case r4: None
      obtain p6 where p6: "multi_cell lib 0 10 report_text p4 = (None, p6)" "paged p6"
        using contract_multi_cell [OF c, of p4 report_text] uni4 [OF r4] by blast
      obtain out where out: "fpdf_output lib (pystr ''S'') p6 = Inr out" "0 < document_length out"
        using contract_output [OF c p6(2)] by blast
      have v: "generate_pdf lib nfkd report_text =
              (Inr (output_bytes out),
               [AddPage, SetAutoPageBreak True 15, AddFont ?D [] ?F True, SetFont ?D 12,
                MultiCell 0 10 report_text, Output (pystr ''S'')])"
        using t p1(1) p2(1) p3 p4 None r4 write_content_run [OF p6(1) out(1)]
        by (simp add: generate_pdf_def try_unicode_font_def invoke_pdf_def)
      have u: "unicode_font_outcome lib = None"
        using oc None r4 by simp
      show ?thesis
        by (intro exI [of _ "[AddPage, SetAutoPageBreak True 15, AddFont ?D [] ?F True,
              SetFont ?D 12, MultiCell 0 10 report_text, Output (pystr ''S'')]"]
            exI [of _ report_text] exI [of _ p4] exI [of _ p6] exI [of _ out])
          (use p6(1) out v u uni4 [OF r4] in blast)
    qed
  qed
qed

lemma nfkd_sample_ascii: "list_all (\<lambda>c. c < 128) u \<Longrightarrow> nfkd_sample u = u"
  by (induction u) (auto simp: nfkd_sample_def)

text \<open>
  C4. On the empty string \<open>generate_pdf\<close> raises \<open>ValueError\<close> before any call on the PDF
  library. On a non-empty string, with a library that keeps its contract, the run ends
  with a layout call in a state where a font that can lay out the text is selected, then
  \<open>output\<close> on the state that call left; the bytes returned are the conversion of the
  document \<open>output\<close> returned, as long as that document, and so not empty.
\<close>

theorem generate_pdf_empty_or_bytes:
  "generate_pdf lib nfkd [] = (Inl (ValueError (pystr ''No report content provided.'')), [])
   \<and> (report_text \<noteq> [] \<and> fpdf_contract lib paged core uni \<longrightarrow>
        (\<exists>bs calls content p p' out.
            generate_pdf lib nfkd report_text =
              (Inr bs, calls @ [MultiCell 0 10 content, Output (pystr ''S'')])
            \<and> (uni p \<or> core p \<and> list_all (\<lambda>c. c < 128) content)
            \<and> multi_cell lib 0 10 content p = (None, p')
            \<and> fpdf_output lib (pystr ''S'') p' = Inr out
            \<and> bs = output_bytes out
            \<and> length bs = document_length out
            \<and> bs \<noteq> []))"
proof (intro conjI impI)
  show "generate_pdf lib nfkd [] = (Inl (ValueError (pystr ''No report content provided.'')), [])"
    by (simp add: generate_pdf_def)
next
  assume a: "report_text \<noteq> [] \<and> fpdf_contract lib paged core uni"
  let ?A = "filter (\<lambda>c. c < 128) (nfkd report_text)"
  have ascii: "list_all (\<lambda>c. c < 128) ?A"
    by (simp add: list_all_iff)
  from a have t: "report_text \<noteq> []" and c: "fpdf_contract lib paged core uni"
    by simp_all
  from generate_pdf_contract_run [OF t c, of nfkd]
  obtain calls content p p' out where r:
    "multi_cell lib 0 10 content p = (None, p')"
    "fpdf_output lib (pystr ''S'') p' = Inr out"
    "0 < document_length out"
    "generate_pdf lib nfkd report_text = (Inr (output_bytes out), calls)"
    and d: "(unicode_font_outcome lib = None \<and> uni p \<and> content = report_text \<and>
          calls = [AddPage, SetAutoPageBreak True 15,
                   AddFont (pystr ''DejaVu'') [] (pystr ''DejaVuSans.ttf'') True,
                   SetFont (pystr ''DejaVu'') 12,
                   MultiCell 0 10 content, Output (pystr ''S'')])
         \<or> (\<exists>e pre. unicode_font_outcome lib = Some e \<and> is_Exception e \<and> core p \<and>
               content = filter (\<lambda>c. c < 128) (nfkd report_text) \<and>
               (pre = [AddPage, SetAutoPageBreak True 15,
                       AddFont (pystr ''DejaVu'') [] (pystr ''DejaVuSans.ttf'') True]
                \<or> pre = [AddPage, SetAutoPageBreak True 15,
                         AddFont (pystr ''DejaVu'') [] (pystr ''DejaVuSans.ttf'') True,
                         SetFont (pystr ''DejaVu'') 12]) \<and>
               calls = pre @ [SetFont (pystr ''Helvetica'') 12, MultiCell 0 10 content,
                              Output (pystr ''S'')])"
    by blast
  have ne: "output_bytes out \<noteq> []"
    using r(3) length_output_bytes [of out] by auto
  have ok: "uni p \<or> core p \<and> list_all (\<lambda>c. c < 128) content"
    using d by (elim disjE exE conjE) (simp_all add: ascii)
  from d consider
      (u) "calls = [AddPage, SetAutoPageBreak True 15,
                   AddFont (pystr ''DejaVu'') [] (pystr ''DejaVuSans.ttf'') True,
                   SetFont (pystr ''DejaVu'') 12,
                   MultiCell 0 10 content, Output (pystr ''S'')]"
    | (f) pre' where "calls = pre' @ [SetFont (pystr ''Helvetica'') 12, MultiCell 0 10 content,
                              Output (pystr ''S'')]"
    by blast
  then obtain pre where pre: "calls = pre @ [MultiCell 0 10 content, Output (pystr ''S'')]"
  proof cases
    case u
    then show ?thesis
      using that [of "[AddPage, SetAutoPageBreak True 15,
                   AddFont (pystr ''DejaVu'') [] (pystr ''DejaVuSans.ttf'') True,
                   SetFont (pystr ''DejaVu'') 12]"] by simp
  next
    case f
    then show ?thesis
      using that [of "pre' @ [SetFont (pystr ''Helvetica'') 12]"] by simp
  qed
  show "\<exists>bs calls content p p' out.
            generate_pdf lib nfkd report_text =
              (Inr bs, calls @ [MultiCell 0 10 content, Output (pystr ''S'')])
            \<and> (uni p \<or> core p \<and> list_all (\<lambda>c. c < 128) content)
            \<and> multi_cell lib 0 10 content p = (None, p')
            \<and> fpdf_output lib (pystr ''S'') p' = Inr out
            \<and> bs = output_bytes out
            \<and> length bs = document_length out
            \<and> bs \<noteq> []"
    by (intro exI [of _ "output_bytes out"] exI [of _ pre] exI [of _ content] exI [of _ p]
        exI [of _ p'] exI [of _ out])
      (use r(1,2,4) pre ok ne length_output_bytes [of out] in simp)
qed

theorem generate_pdf_empty_or_bytes_witness:
  "pystr ''hi'' \<noteq> [] \<and> fpdf_contract (fpdf_strict False) strict_paged strict_core strict_uni
   \<and> generate_pdf (fpdf_strict False) nfkd_sample [] =
        (Inl (ValueError (pystr ''No report content provided.'')), [])
   \<and> generate_pdf (fpdf_strict False) nfkd_sample (pystr ''hi'') =
        (Inr [37, 80, 68, 70, 104, 105],
         [AddPage, SetAutoPageBreak True 15,
          AddFont (pystr ''DejaVu'') [] (pystr ''DejaVuSans.ttf'') True,
          SetFont (pystr ''Helvetica'') 12,
          MultiCell 0 10 (pystr ''hi''), Output (pystr ''S'')])
   \<and> fst (multi_cell (fpdf_strict False) 0 10 (pystr ''hi'') (new_FPDF (fpdf_strict False))) =
        Some (LibraryError 2)"
proof -
  have v: "generate_pdf (fpdf_strict False) nfkd_sample (pystr ''hi'') =
        (Inr [37, 80, 68, 70, 104, 105],
         [AddPage, SetAutoPageBreak True 15,
          AddFont (pystr ''DejaVu'') [] (pystr ''DejaVuSans.ttf'') True,
          SetFont (pystr ''Helvetica'') 12,
          MultiCell 0 10 (pystr ''hi''), Output (pystr ''S'')])"
    by (simp add: generate_pdf_def try_unicode_font_def invoke_pdf_def fpdf_strict_def
        write_content_def output_bytes_def encode_latin1_replace_def ascii_transliterate_eq
        nfkd_sample_def)
  have s: "fst (multi_cell (fpdf_strict False) 0 10 (pystr ''hi'') (new_FPDF (fpdf_strict False))) =
        Some (LibraryError 2)"
    by (simp add: fpdf_strict_def)
  from generate_pdf_empty_or_bytes
      [where lib = "fpdf_strict False" and nfkd = nfkd_sample and report_text = "pystr ''hi''"
         and paged = strict_paged and core = strict_core and uni = strict_uni]
    fpdf_strict_contract [of False] v s
  show ?thesis by simp
qed



text \<open>
  C10. The transliteration of the fallback path never raises; its result is the NFKD form
  with the code points from 128 up dropped, so it is plain ASCII; and, NFKD leaving
  ASCII text unchanged, transliterating the result again returns it unchanged.
\<close>

theorem ascii_transliterate_ascii_idempotent:
  "\<exists>t. ascii_transliterate nfkd s = Inr t
       \<and> list_all (\<lambda>c. c < 128) t
       \<and> ((\<forall>u. list_all (\<lambda>c. c < 128) u \<longrightarrow> nfkd u = u) \<longrightarrow> ascii_transliterate nfkd t = Inr t)"
proof -
  have a: "list_all (\<lambda>c. c < 128) (filter (\<lambda>c. c < 128) (nfkd s))"
    by (simp add: list_all_iff)
  have "ascii_transliterate nfkd (filter (\<lambda>c. c < 128) (nfkd s)) =
          Inr (filter (\<lambda>c. c < 128) (nfkd s))"
    if "\<forall>u. list_all (\<lambda>c. c < 128) u \<longrightarrow> nfkd u = u"
  proof -
    have "nfkd (filter (\<lambda>c. c < 128) (nfkd s)) = filter (\<lambda>c. c < 128) (nfkd s)"
      using that a by blast
    then show ?thesis
      by (simp add: ascii_transliterate_eq)
  qed
  with a show ?thesis
    by (auto simp: ascii_transliterate_eq)
qed

theorem ascii_transliterate_ascii_idempotent_witness:
  "ascii_transliterate nfkd_sample [99, 97, 102, 233] = Inr (pystr ''cafe'')
   \<and> ascii_transliterate nfkd_sample (pystr ''cafe'') = Inr (pystr ''cafe'')"
proof -
  have n: "ascii_transliterate nfkd_sample [99, 97, 102, 233] = Inr (pystr ''cafe'')"
    by (simp add: ascii_transliterate_eq nfkd_sample_def)
  have h: "\<forall>u. list_all (\<lambda>c. c < 128) u \<longrightarrow> nfkd_sample u = u"
    using nfkd_sample_ascii by blast
  show ?thesis
    using ascii_transliterate_ascii_idempotent [of nfkd_sample "[99, 97, 102, 233]"] n h
    by auto
qed

section \<open>Properties of the chains\<close>

lemma extends_ret: "extends_log (ret x)"
  by (simp add: extends_log_def ret_def)

lemma extends_lift: "extends_log (lift r)"
  by (simp add: extends_log_def lift_def)

lemma extends_emit: "extends_log (emit evs)"
  by (simp add: extends_log_def emit_def)

lemma extends_llm_call: "extends_log (llm_call llm p)"
  by (simp add: extends_log_def llm_call_def split: prod.splits)

lemma extends_retrieve: "extends_log (retrieve r q)"
  by (simp add: extends_log_def retrieve_def split: prod.splits)

lemma extends_and_then:
  assumes "extends_log m" and "\<And>x. extends_log (f x)"
  shows "extends_log (and_then m f)"
  unfolding extends_log_def
proof
  fix s
  obtain r s1 where m: "m s = (r, s1)" by (cases "m s")
  obtain e1 where e1: "snd s1 = snd s @ e1"
    using assms(1) m unfolding extends_log_def by (metis snd_conv)
  show "\<exists>evs. snd (snd (and_then m f s)) = snd s @ evs"
  proof (cases r)
    case (Inl e)
    with m e1 show ?thesis by (simp add: and_then_def)
  next
    case (Inr x)
    obtain e2 where "snd (snd (f x s1)) = snd s1 @ e2"
      using assms(2) unfolding extends_log_def by blast
    with m e1 Inr show ?thesis by (simp add: and_then_def)
  qed
qed

lemma extends_map_each:
  assumes "\<And>x. extends_log (f x)"
  shows "extends_log (map_each f xs)"
  unfolding extends_log_def
proof (induction xs)
  case Nil
  show ?case by simp
next
  case (Cons x xs)
  show ?case
  proof
    fix s
    obtain r s1 where m: "f x s = (r, s1)" by (cases "f x s")
    obtain e1 where e1: "snd s1 = snd s @ e1"
      using assms m unfolding extends_log_def by (metis snd_conv)
    show "\<exists>evs. snd (snd (map_each f (x # xs) s)) = snd s @ evs"
    proof (cases r)
      case (Inl e)
      with m e1 show ?thesis by simp
    next
      case (Inr y)
      obtain r2 s2 where m2: "map_each f xs s1 = (r2, s2)" by (cases "map_each f xs s1")
      obtain e2 where "snd s2 = snd s1 @ e2"
        using Cons m2 by (metis snd_conv)
      with m e1 Inr m2 show ?thesis by (cases r2) simp_all
    qed
  qed
qed

lemma extends_final_chain: "extends_log (create_final_chain loads llm retriever question)"
  unfolding create_final_chain_def create_research_summary_chain_def
    create_full_research_chain_def create_search_query_chain_def create_url_list_chain_def
    create_web_search_chain_def create_summary_chain_def
  by (intro extends_and_then extends_map_each extends_llm_call extends_retrieve extends_ret
      extends_lift extends_emit allI impI | simp split: prod.splits)+


lemma create_summary_chain_run:
  "create_summary_chain llm (q, u) (w, log) =
     (case llm (SummaryPrompt u q) w of
        (Inl e, w') \<Rightarrow> (Inl e, (w', log @ [LLMCall (SummaryPrompt u q)]))
      | (Inr summary, w') \<Rightarrow>
          (case dict_get (metadata u) (pystr ''Title'') of
             Inl e \<Rightarrow> (Inl e, (w', log @ [LLMCall (SummaryPrompt u q)]))
           | Inr title \<Rightarrow>
               (Inr (pystr ''Title: '' @ title @ [10, 10] @ pystr ''SUMMARY: '' @ summary),
                (w', log @ [LLMCall (SummaryPrompt u q)]))))"
  by (simp add: create_summary_chain_def and_then_def llm_call_def lift_def ret_def
      split: prod.splits sum.splits)

lemma map_each_summary_log:
  "\<exists>n. n \<le> length ds \<and>
     snd (snd (map_each (create_summary_chain llm) (map (\<lambda>u. (q, u)) ds) (w, log))) =
       log @ map (\<lambda>u. LLMCall (SummaryPrompt u q)) (take n ds)"
proof (induction ds arbitrary: w log)
  case Nil
  show ?case by simp
next
  case (Cons u ds)
  obtain r w1 where l: "llm (SummaryPrompt u q) w = (r, w1)"
    by (cases "llm (SummaryPrompt u q) w")
  let ?log1 = "log @ [LLMCall (SummaryPrompt u q)]"
  have one: "\<exists>n. n \<le> length (u # ds) \<and> ?log1 = log @ map (\<lambda>u. LLMCall (SummaryPrompt u q)) (take n (u # ds))"
    by (rule exI [of _ 1]) simp
  show ?case
  proof (cases r)
    case (Inl e)
    with l one show ?thesis by (simp add: create_summary_chain_run)
  next
    case (Inr sm)
    show ?thesis
    proof (cases "dict_get (metadata u) (pystr ''Title'')")
      case (Inl e)
      with l Inr one show ?thesis by (simp add: create_summary_chain_run)
    next
      case t: (Inr title)
      obtain n where n: "n \<le> length ds"
        "snd (snd (map_each (create_summary_chain llm) (map (\<lambda>u. (q, u)) ds) (w1, ?log1))) =
           ?log1 @ map (\<lambda>u. LLMCall (SummaryPrompt u q)) (take n ds)"
        using Cons.IH [of w1 ?log1] by blast
      have "snd (snd (map_each (create_summary_chain llm) (map (\<lambda>u. (q, u)) (u # ds)) (w, log))) =
              log @ map (\<lambda>u. LLMCall (SummaryPrompt u q)) (take (Suc n) (u # ds))"
        using l Inr t n(2)
        by (auto simp: create_summary_chain_run split: prod.splits sum.splits)
      with n(1) show ?thesis
        by (intro exI [of _ "Suc n"]) simp
    qed
  qed
qed

lemma map_each_summary_ok:
  "map_each (create_summary_chain llm) (map (\<lambda>u. (q, u)) ds) (w, log) = (Inr rs, s')
     \<Longrightarrow> snd s' = log @ map (\<lambda>u. LLMCall (SummaryPrompt u q)) ds
         \<and> list_all2 (summary_record llm q) ds rs"
proof (induction ds arbitrary: w log rs)
  case Nil
  then show ?case by auto
next
  case (Cons u ds)
  obtain r w1 where l: "llm (SummaryPrompt u q) w = (r, w1)"
    by (cases "llm (SummaryPrompt u q) w")
  let ?log1 = "log @ [LLMCall (SummaryPrompt u q)]"
  from Cons.prems l obtain sm where r: "r = Inr sm"
    by (cases r) (simp_all add: create_summary_chain_run)
  from Cons.prems l r obtain title where t: "dict_get (metadata u) (pystr ''Title'') = Inr title"
    by (cases "dict_get (metadata u) (pystr ''Title'')") (simp_all add: create_summary_chain_run)
  let ?y = "pystr ''Title: '' @ title @ [10, 10] @ pystr ''SUMMARY: '' @ sm"
  obtain r2 s2 where m: "map_each (create_summary_chain llm) (map (\<lambda>u. (q, u)) ds) (w1, ?log1) = (r2, s2)"
    by (cases "map_each (create_summary_chain llm) (map (\<lambda>u. (q, u)) ds) (w1, ?log1)")
  from Cons.prems l r t m obtain ys where ys: "r2 = Inr ys" "rs = ?y # ys" "s' = s2"
    by (cases r2) (auto simp: create_summary_chain_run)
  have ih: "snd s2 = ?log1 @ map (\<lambda>u. LLMCall (SummaryPrompt u q)) ds
            \<and> list_all2 (summary_record llm q) ds ys"
    using Cons.IH [of w1 ?log1 ys] m ys by simp
  have "summary_record llm q u ?y"
    unfolding summary_record_def using l r t by blast
  with ih ys show ?case by simp
qed

lemma map_each_summary_returns:
  assumes "\<forall>p wa. \<exists>t wb. llm p wa = (Inr t, wb)"
      and "list_all (\<lambda>u. \<exists>title. dict_get (metadata u) (pystr ''Title'') = Inr title) ds"
  shows "\<exists>rs s'. map_each (create_summary_chain llm) (map (\<lambda>u. (q, u)) ds) (w, log) = (Inr rs, s')"
  using assms(2)
proof (induction ds arbitrary: w log)
  case Nil
  show ?case by simp
next
  case (Cons u ds)
  obtain t w1 where l: "llm (SummaryPrompt u q) w = (Inr t, w1)"
    using assms(1) by blast
  obtain title where ti: "dict_get (metadata u) (pystr ''Title'') = Inr title"
    using Cons.prems by auto
  obtain rs s' where
    "map_each (create_summary_chain llm) (map (\<lambda>u. (q, u)) ds)
       (w1, log @ [LLMCall (SummaryPrompt u q)]) = (Inr rs, s')"
    using Cons.IH [of w1 "log @ [LLMCall (SummaryPrompt u q)]"] Cons.prems by auto
  with l ti show ?case
    by (simp add: create_summary_chain_run)
qed

lemma web_search_chain_run:
  "create_web_search_chain retriever llm question (w, log) =
     (case retriever question w of
        (Inl e, w1) \<Rightarrow> (Inl e, (w1, log @ [RetrieverCall question]))
      | (Inr docs, w1) \<Rightarrow>
          map_each (create_summary_chain llm) (map (\<lambda>u. (question, u)) (take 10 docs))
            (w1, log @ [RetrieverCall question]))"
  by (simp add: create_web_search_chain_def and_then_def retrieve_def split: prod.splits sum.splits)

text \<open>
  C6. For a query on which the retrieval service returns documents, the summarization
  step requests a summary for documents among the first ten only, in the retriever's
  order, whatever the outcome; when it returns, it has requested one for each of the
  first ten, and its results are, in that order, one summary record per document; and it
  does return when the model answers every prompt and each of the first ten documents
  has a \<open>Title\<close>.
\<close>

theorem web_search_chain_first_ten:
  assumes "retriever question w = (Inr docs, w1)"
  shows "(\<exists>n. n \<le> 10 \<and> n \<le> length docs \<and>
            snd (snd (create_web_search_chain retriever llm question (w, log))) =
              log @ RetrieverCall question
                # map (\<lambda>u. LLMCall (SummaryPrompt u question)) (take n docs))
       \<and> (\<forall>results s'.
            create_web_search_chain retriever llm question (w, log) = (Inr results, s') \<longrightarrow>
              snd s' = log @ RetrieverCall question
                         # map (\<lambda>u. LLMCall (SummaryPrompt u question)) (take 10 docs)
              \<and> length results = min 10 (length docs)
              \<and> list_all2 (summary_record llm question) (take 10 docs) results)
       \<and> ((\<forall>p wa. \<exists>t wb. llm p wa = (Inr t, wb))
            \<and> list_all (\<lambda>u. \<exists>title. dict_get (metadata u) (pystr ''Title'') = Inr title)
                  (take 10 docs)
            \<longrightarrow> (\<exists>results s'.
                   create_web_search_chain retriever llm question (w, log) = (Inr results, s')))"
proof (intro conjI allI impI)
  assume "(\<forall>p wa. \<exists>t wb. llm p wa = (Inr t, wb))
          \<and> list_all (\<lambda>u. \<exists>title. dict_get (metadata u) (pystr ''Title'') = Inr title)
                (take 10 docs)"
  then show "\<exists>results s'.
      create_web_search_chain retriever llm question (w, log) = (Inr results, s')"
    using assms
      map_each_summary_returns [of llm "take 10 docs" question w1 "log @ [RetrieverCall question]"]
    by (simp add: web_search_chain_run)
next
  obtain n where n: "n \<le> length (take 10 docs)"
    "snd (snd (map_each (create_summary_chain llm) (map (\<lambda>u. (question, u)) (take 10 docs))
        (w1, log @ [RetrieverCall question]))) =
     (log @ [RetrieverCall question]) @
       map (\<lambda>u. LLMCall (SummaryPrompt u question)) (take n (take 10 docs))"
    using map_each_summary_log [of "take 10 docs" llm question w1 "log @ [RetrieverCall question]"]
    by blast
  have n10: "n \<le> 10" "n \<le> length docs"
    using n(1) by simp_all
  then have "take n (take 10 docs) = take n docs"
    by (simp add: min_absorb1)
  with n n10 assms show "\<exists>n. n \<le> 10 \<and> n \<le> length docs \<and>
            snd (snd (create_web_search_chain retriever llm question (w, log))) =
              log @ RetrieverCall question
                # map (\<lambda>u. LLMCall (SummaryPrompt u question)) (take n docs)"
    by (intro exI [of _ n]) (simp add: web_search_chain_run)
next
  fix results s'
  assume "create_web_search_chain retriever llm question (w, log) = (Inr results, s')"
  then have m: "map_each (create_summary_chain llm) (map (\<lambda>u. (question, u)) (take 10 docs))
            (w1, log @ [RetrieverCall question]) = (Inr results, s')"
    using assms by (simp add: web_search_chain_run)
  note ok = map_each_summary_ok [OF m]
  from ok show "snd s' = log @ RetrieverCall question
                         # map (\<lambda>u. LLMCall (SummaryPrompt u question)) (take 10 docs)"
    by simp
  from ok have "list_all2 (summary_record llm question) (take 10 docs) results"
    by simp
  then have "length (take 10 docs) = length results"
    by (rule list_all2_lengthD)
  then show "length results = min 10 (length docs)"
    by (simp add: min.commute)
  from ok show "list_all2 (summary_record llm question) (take 10 docs) results"
    by simp
qed

theorem web_search_chain_first_ten_witness:
  "retriever_sample 12 (PStr (pystr ''q'')) 0 = (Inr (replicate 12 doc_sample), 1)
   \<and> create_web_search_chain (retriever_sample 12) llm_sample (PStr (pystr ''q'')) (0, []) =
       (Inr (replicate 10 (pystr ''Title: T'' @ [10, 10] @ pystr ''SUMMARY: S'')),
        (11, RetrieverCall (PStr (pystr ''q''))
               # replicate 10 (LLMCall (SummaryPrompt doc_sample (PStr (pystr ''q''))))))
   \<and> length (replicate 10 (pystr ''Title: T'' @ [10, 10] @ pystr ''SUMMARY: S'')) =
        min 10 (length (replicate 12 doc_sample))"
proof -
  have a: "retriever_sample 12 (PStr (pystr ''q'')) 0 = (Inr (replicate 12 doc_sample), 1)"
    by (simp add: retriever_sample_def)
  have v: "create_web_search_chain (retriever_sample 12) llm_sample (PStr (pystr ''q'')) (0, []) =
       (Inr (replicate 10 (pystr ''Title: T'' @ [10, 10] @ pystr ''SUMMARY: S'')),
        (11, RetrieverCall (PStr (pystr ''q''))
               # replicate 10 (LLMCall (SummaryPrompt doc_sample (PStr (pystr ''q''))))))"
  proof -
    have r: "replicate 10 y = [y, y, y, y, y, y, y, y, y, y]" for y :: 'a
      by (simp add: numeral_eq_Suc)
    have t: "take 10 (replicate 12 doc_sample) = replicate 10 doc_sample"
      by simp
    show ?thesis
      unfolding web_search_chain_run retriever_sample_def
      by (simp add: t) (simp add: r create_summary_chain_run llm_sample_def doc_sample_def
          dict_get_def)
  qed
  from web_search_chain_first_ten
      [where retriever = "retriever_sample 12" and question = "PStr (pystr ''q'')" and w = 0
         and docs = "replicate 12 doc_sample" and ?w1.0 = 1 and llm = llm_sample
         and log = "[]"] v a
  show ?thesis by simp
qed

lemma search_query_chain_invalid:
  assumes "llm (SearchPrompt question) w = (Inr x, w1)"
      and "loads (PStr x) = Inl JSONDecodeError"
  shows "create_search_query_chain loads llm question (w, log) =
           (Inr (PList []), (w1, log @ [LLMCall (SearchPrompt question), StErrorDecoding (PStr x)]))"
  using assms
  by (simp add: create_search_query_chain_def and_then_def llm_call_def parse_json_def emit_def
      lift_def)

lemma research_summary_invalid:
  assumes "llm (SearchPrompt question) w = (Inr x, w1)"
      and "loads (PStr x) = Inl JSONDecodeError"
  shows "create_research_summary_chain (create_full_research_chain loads llm retriever) question
           (w, log) =
         (Inr (PDict [(pystr ''question'', question), (pystr ''research_summary'', PStr [])]),
          (w1, log @ [LLMCall (SearchPrompt question), StErrorDecoding (PStr x)]))"
  using search_query_chain_invalid
      [where llm = llm and loads = loads and question = question and w = w and x = x
         and ?w1.0 = w1 and log = log] assms
  by (simp add: create_research_summary_chain_def create_full_research_chain_def and_then_def
      lift_def ret_def flatten_list_def)

text \<open>
  C1 (as amended). When the model's answer to the search prompt is not valid JSON, no
  per-query retrieval and no summarization runs and the research summary is the empty
  string. The reference list is built from a retrieval on the topic itself, first ten
  documents: an exception of that retrieval or a missing \<open>Entry ID\<close> or \<open>Title\<close> ends
  the invocation; otherwise the writer prompt is sent to the model with the empty
  research summary and the links of those documents joined by line feeds (the empty
  string when the retrieval returned no document).
\<close>

theorem final_chain_invalid_json:
  assumes "llm (SearchPrompt question) w = (Inr x, w1)"
      and "loads (PStr x) = Inl JSONDecodeError"
  shows "create_final_chain loads llm retriever question (w, log) =
     (case retriever question w1 of
        (Inl e, w2) \<Rightarrow>
          (Inl e, (w2, log @ [LLMCall (SearchPrompt question), StErrorDecoding (PStr x),
                              RetrieverCall question]))
      | (Inr docs, w2) \<Rightarrow>
          (case collect url_item (take 10 docs) of
             Inl e \<Rightarrow>
               (Inl e, (w2, log @ [LLMCall (SearchPrompt question), StErrorDecoding (PStr x),
                                   RetrieverCall question]))
           | Inr url_list \<Rightarrow>
               llm_call llm
                 (WriterPrompt
                    (PDict [(pystr ''question'', question),
                            (pystr ''research_summary'', PStr [])])
                    (PDict [(pystr ''question'', question)])
                    (PDict [(pystr ''url_list'', PStr (str_join [10] (map url_link url_list)))]))
                 (w2, log @ [LLMCall (SearchPrompt question), StErrorDecoding (PStr x),
                             RetrieverCall question])))"
  using research_summary_invalid
      [where llm = llm and loads = loads and question = question and w = w and x = x
         and ?w1.0 = w1 and log = log and retriever = retriever] assms
  by (simp add: create_final_chain_def create_url_list_chain_def and_then_def retrieve_def
      lift_def ret_def split: prod.splits sum.splits)

theorem final_chain_invalid_json_witness:
  "create_final_chain loads_sample llm_sample (retriever_sample 0) (PStr (pystr ''topic'')) (0, []) =
     (Inr (pystr ''report''),
      (3, [LLMCall (SearchPrompt (PStr (pystr ''topic''))),
           StErrorDecoding (PStr (pystr ''not json'')),
           RetrieverCall (PStr (pystr ''topic'')),
           LLMCall (WriterPrompt
             (PDict [(pystr ''question'', PStr (pystr ''topic'')),
                     (pystr ''research_summary'', PStr [])])
             (PDict [(pystr ''question'', PStr (pystr ''topic''))])
             (PDict [(pystr ''url_list'', PStr [])]))]))"
proof -
  have a: "llm_sample (SearchPrompt (PStr (pystr ''topic''))) 0 = (Inr (pystr ''not json''), 1)"
    by (simp add: llm_sample_def)
  have b: "loads_sample (PStr (pystr ''not json'')) = Inl JSONDecodeError"
    by (simp add: loads_sample_def)
  show ?thesis
    using final_chain_invalid_json
        [where llm = llm_sample and loads = loads_sample
           and question = "PStr (pystr ''topic'')" and w = 0 and x = "pystr ''not json''"
           and ?w1.0 = 1 and log = "[]" and retriever = "retriever_sample 0"] a b
    by (simp add: retriever_sample_def llm_call_def llm_sample_def)
qed

text \<open>
  With invalid JSON from the model and a retrieval service that returns one document for
  the topic, the reference list sent to the model is not empty.
\<close>

theorem final_chain_invalid_json_references:
  "loads_sample (PStr (pystr ''not json'')) = Inl JSONDecodeError
   \<and> create_final_chain loads_sample llm_sample (retriever_sample 1) (PStr (pystr ''topic'')) (0, []) =
     (Inr (pystr ''report''),
      (3, [LLMCall (SearchPrompt (PStr (pystr ''topic''))),
           StErrorDecoding (PStr (pystr ''not json'')),
           RetrieverCall (PStr (pystr ''topic'')),
           LLMCall (WriterPrompt
             (PDict [(pystr ''question'', PStr (pystr ''topic'')),
                     (pystr ''research_summary'', PStr [])])
             (PDict [(pystr ''question'', PStr (pystr ''topic''))])
             (PDict [(pystr ''url_list'', PStr (pystr ''[T](http://arxiv.org/abs/1)''))]))]))"
  by (simp add: create_final_chain_def create_research_summary_chain_def
      create_full_research_chain_def create_search_query_chain_def create_url_list_chain_def
      and_then_def llm_call_def retrieve_def lift_def ret_def emit_def parse_json_def
      loads_sample_def llm_sample_def retriever_sample_def doc_sample_def url_item_def
      url_link_def dict_get_def flatten_list_def)

section \<open>Properties of the page\<close>

lemma main_runs_pipeline:
  assumes "google_api_key \<noteq> []" "research_topic \<noteq> []"
  shows "\<exists>evs. snd (snd (main pf google_api_key research_topic True w)) =
           page_header @ [InitLLM (pystr ''gemini-1.5-flash'') google_api_key, InitRetriever]
             @ evs"
proof -
  let ?s0 = "(w, page_header @ [InitLLM (pystr ''gemini-1.5-flash'') google_api_key,
                                InitRetriever])"
  let ?run = "create_final_chain (json_loads_of pf) (initialize_llm pf google_api_key)
                (initialize_retriever pf) (PStr research_topic) ?s0"
  obtain r s where run: "?run = (r, s)" by (cases ?run)
  obtain evs where evs: "snd s = snd ?s0 @ evs"
    using extends_final_chain [of "json_loads_of pf" "initialize_llm pf google_api_key"
        "initialize_retriever pf" "PStr research_topic"] run
    unfolding extends_log_def by (metis snd_conv)
  show ?thesis
  proof (cases r)
    case (Inl e)
    with run evs assms show ?thesis by (simp add: main_def)
  next
    case (Inr report)
    obtain r' calls where pdf: "generate_pdf (fpdf_of pf) (normalize_NFKD pf) report = (r', calls)"
      by (cases "generate_pdf (fpdf_of pf) (normalize_NFKD pf) report")
    with run evs assms Inr show ?thesis by (cases r') (simp_all add: main_def)
  qed
qed

text \<open>
  C7. On a button press with an empty API key, or with a key and an empty topic, the
  matching error is reported, the run ends, and nothing else happens: the state of the
  outside world is unchanged and no event of the pipeline occurs. Without a press only
  the page header is shown. An event of the pipeline occurs exactly when the button is
  pressed with both inputs non-empty.
\<close>

theorem main_validates_inputs:
  "(google_api_key = [] \<longrightarrow>
      main pf google_api_key research_topic True w =
        (None, (w, page_header @ [StError (pystr ''API Key is required.'')])))
   \<and> (google_api_key \<noteq> [] \<and> research_topic = [] \<longrightarrow>
      main pf google_api_key research_topic True w =
        (None, (w, page_header @ [StError (pystr ''Research topic is required.'')])))
   \<and> main pf google_api_key research_topic False w = (None, (w, page_header))
   \<and> (list_ex pipeline_event (snd (snd (main pf google_api_key research_topic pressed w)))
        \<longleftrightarrow> pressed \<and> google_api_key \<noteq> [] \<and> research_topic \<noteq> [])"
proof (intro conjI impI)
  show "list_ex pipeline_event (snd (snd (main pf google_api_key research_topic pressed w)))
        \<longleftrightarrow> pressed \<and> google_api_key \<noteq> [] \<and> research_topic \<noteq> []"
  proof (cases "pressed \<and> google_api_key \<noteq> [] \<and> research_topic \<noteq> []")
    case True
    then obtain evs where "snd (snd (main pf google_api_key research_topic pressed w)) =
           page_header @ [InitLLM (pystr ''gemini-1.5-flash'') google_api_key, InitRetriever]
             @ evs"
      using main_runs_pipeline [of google_api_key research_topic pf w] by auto
    with True show ?thesis by simp
  next
    case False
    then show ?thesis
      by (auto simp: main_def page_header_def)
  qed
qed (simp_all add: main_def)

theorem main_validates_inputs_witness:
  "main platform_sample [] (pystr ''topic'') True 0 =
     (None, (0, page_header @ [StError (pystr ''API Key is required.'')]))
   \<and> main platform_sample (pystr ''key'') [] True 0 =
     (None, (0, page_header @ [StError (pystr ''Research topic is required.'')]))
   \<and> list_ex pipeline_event (snd (snd (main platform_sample (pystr ''key'') (pystr ''topic'') True 0)))"
  using main_validates_inputs [of "[]" platform_sample "pystr ''topic''" 0 True]
    main_validates_inputs [of "pystr ''key''" platform_sample "[]" 0 True]
    main_validates_inputs [of "pystr ''key''" platform_sample "pystr ''topic''" 0 True]
  by simp

end
